theory Spec2Isabelle
  imports Complex_Main
begin

section \<open>Python values and exceptions\<close>

text \<open>
  The script \<open>jetson_jtop_helper.py\<close> handles dynamically typed values that it receives
  from the jtop library and reshapes into a JSON document.  A value is modelled by the
  datatype below.  A dictionary is an association list in insertion order, with string keys
  (the keys the script handles are all strings); a lookup takes the first binding of a key.
  A float is idealised as the rational number it denotes.
\<close>

datatype pyval =
    PNone
  | PBool bool
  | PInt int
  | PFloat rat
  | PStr string
  | PList "pyval list"
  | PDict "(string \<times> pyval) list"

text \<open>
  The script tells two classes of exception apart: \<open>JtopException\<close> and every other
  subclass of \<open>Exception\<close>.  Each carries the text that \<open>str(e)\<close> gives.  Exceptions
  outside \<open>Exception\<close> (\<open>KeyboardInterrupt\<close>, \<open>SystemExit\<close>) are signals of the
  interpreter, not behaviours of the backend, and are not modelled.
\<close>

datatype exn = JtopException string | PyException string

fun str_exn :: "exn \<Rightarrow> string" where
  "str_exn (JtopException m) = m"
| "str_exn (PyException m) = m"

definition py_bind :: "exn + 'a \<Rightarrow> ('a \<Rightarrow> exn + 'b) \<Rightarrow> exn + 'b" where
  "py_bind m f = (case m of Inl e \<Rightarrow> Inl e | Inr x \<Rightarrow> f x)"

fun type_name :: "pyval \<Rightarrow> string" where
  "type_name PNone = ''NoneType''"
| "type_name (PBool _) = ''bool''"
| "type_name (PInt _) = ''int''"
| "type_name (PFloat _) = ''float''"
| "type_name (PStr _) = ''str''"
| "type_name (PList _) = ''list''"
| "type_name (PDict _) = ''dict''"

definition attribute_error :: "pyval \<Rightarrow> string \<Rightarrow> exn" where
  "attribute_error v a =
     PyException ([CHR 0x27] @ type_name v @ [CHR 0x27] @ '' object has no attribute ''
                  @ [CHR 0x27] @ a @ [CHR 0x27])"

text \<open>\<open>d.get(k, dflt)\<close>: only a dictionary has the method.\<close>

fun py_get :: "pyval \<Rightarrow> string \<Rightarrow> pyval \<Rightarrow> exn + pyval" where
  "py_get (PDict kvs) k dflt = Inr (case map_of kvs k of None \<Rightarrow> dflt | Some v \<Rightarrow> v)"
| "py_get v k dflt = Inl (attribute_error v ''get'')"

text \<open>\<open>d.items()\<close>.\<close>

fun py_items :: "pyval \<Rightarrow> exn + (string \<times> pyval) list" where
  "py_items (PDict kvs) = Inr kvs"
| "py_items v = Inl (attribute_error v ''items'')"

text \<open>\<open>v['temp']\<close> on an arbitrary value.\<close>

fun py_getitem_str :: "pyval \<Rightarrow> string \<Rightarrow> exn + pyval" where
  "py_getitem_str (PDict kvs) k =
     (case map_of kvs k of
        None \<Rightarrow> Inl (PyException ([CHR 0x27] @ k @ [CHR 0x27]))
      | Some v \<Rightarrow> Inr v)"
| "py_getitem_str (PStr s) k = Inl (PyException ''string indices must be integers'')"
| "py_getitem_str (PList xs) k =
     Inl (PyException ''list indices must be integers or slices, not str'')"
| "py_getitem_str v k =
     Inl (PyException ([CHR 0x27] @ type_name v @ [CHR 0x27] @ '' object is not subscriptable''))"

text \<open>Truth value of a value, as \<open>if v:\<close> and \<open>bool(v)\<close> take it.\<close>

fun py_truthy :: "pyval \<Rightarrow> bool" where
  "py_truthy PNone = False"
| "py_truthy (PBool b) = b"
| "py_truthy (PInt i) = (i \<noteq> 0)"
| "py_truthy (PFloat r) = (r \<noteq> 0)"
| "py_truthy (PStr s) = (s \<noteq> [])"
| "py_truthy (PList xs) = (xs \<noteq> [])"
| "py_truthy (PDict kvs) = (kvs \<noteq> [])"

text \<open>
  \<open>round(x, 1)\<close>: an integer (and a boolean, as the integer it is) is returned as an
  integer, a float is rounded half-to-even on its first decimal, anything else has no
  \<open>__round__\<close>.
\<close>

definition round_half_even :: "rat \<Rightarrow> int" where
  "round_half_even r =
     (let f = \<lfloor>r\<rfloor>; d = r - of_int f
      in if d < 1 / 2 then f else if 1 / 2 < d then f + 1 else if even f then f else f + 1)"

fun py_round1 :: "pyval \<Rightarrow> exn + pyval" where
  "py_round1 (PInt i) = Inr (PInt i)"
| "py_round1 (PBool b) = Inr (PInt (if b then 1 else 0))"
| "py_round1 (PFloat r) = Inr (PFloat (of_int (round_half_even (10 * r)) / 10))"
| "py_round1 v =
     Inl (PyException (''type '' @ type_name v @ '' doesn't define __round__ method''))"

text \<open>\<open>len(p)\<close> and \<open>p[i]\<close> for a non-negative literal index \<open>i\<close>.\<close>

fun py_len :: "pyval \<Rightarrow> exn + nat" where
  "py_len (PList xs) = Inr (length xs)"
| "py_len (PStr s) = Inr (length s)"
| "py_len (PDict kvs) = Inr (length kvs)"
| "py_len v =
     Inl (PyException (''object of type '' @ [CHR 0x27] @ type_name v @ [CHR 0x27]
                       @ '' has no len()''))"

definition digit_char :: "nat \<Rightarrow> char" where
  "digit_char n = ''0123456789'' ! n"

fun str_nat :: "nat \<Rightarrow> string" where
  "str_nat n =
     (if n < 10 then [digit_char n]
      else str_nat (n div 10) @ [digit_char (n mod 10)])"

declare str_nat.simps [simp del]

definition str_int :: "int \<Rightarrow> string" where
  "str_int i = (if i < 0 then CHR ''-'' # str_nat (nat (- i)) else str_nat (nat i))"

fun py_index :: "pyval \<Rightarrow> nat \<Rightarrow> exn + pyval" where
  "py_index (PList xs) i =
     (if i < length xs then Inr (xs ! i) else Inl (PyException ''list index out of range''))"
| "py_index (PStr s) i =
     (if i < length s then Inr (PStr [s ! i])
      else Inl (PyException ''string index out of range''))"
| "py_index (PDict kvs) i = Inl (PyException (str_nat i))"
| "py_index v i =
     Inl (PyException ([CHR 0x27] @ type_name v @ [CHR 0x27] @ '' object is not subscriptable''))"

text \<open>The elements that \<open>for x in v\<close> visits.\<close>

fun py_iter :: "pyval \<Rightarrow> exn + pyval list" where
  "py_iter (PList xs) = Inr xs"
| "py_iter (PStr s) = Inr (map (\<lambda>c. PStr [c]) s)"
| "py_iter (PDict kvs) = Inr (map (\<lambda>kv. PStr (fst kv)) kvs)"
| "py_iter v =
     Inl (PyException ([CHR 0x27] @ type_name v @ [CHR 0x27] @ '' object is not iterable''))"

text \<open>\<open>d[k] = v\<close> on a dictionary: replace the binding in place, or append a new one.\<close>

fun dict_set :: "(string \<times> pyval) list \<Rightarrow> string \<Rightarrow> pyval \<Rightarrow> (string \<times> pyval) list" where
  "dict_set [] k v = [(k, v)]"
| "dict_set ((k', v') # kvs) k v =
     (if k' = k then (k, v) # kvs else (k', v') # dict_set kvs k v)"

subsection \<open>Parsing an integer, as \<open>int(s)\<close> does on a string\<close>

text \<open>
  Surrounding whitespace is dropped; then an optional sign, then decimal digits, where
  single underscores may stand between digits.  Anything else raises \<open>ValueError\<close>
  (here \<open>None\<close>).  Strings are ASCII; the limit that recent interpreters put on the
  number of digits is not modelled.
\<close>

definition is_space :: "char \<Rightarrow> bool" where
  "is_space c = (let n = (of_char c :: nat) in (9 \<le> n \<and> n \<le> 13) \<or> (28 \<le> n \<and> n \<le> 32))"

definition digit_val :: "char \<Rightarrow> int option" where
  "digit_val c =
     (let n = (of_char c :: nat) in if 48 \<le> n \<and> n \<le> 57 then Some (int n - 48) else None)"

definition strip :: "string \<Rightarrow> string" where
  "strip s = rev (dropWhile is_space (rev (dropWhile is_space s)))"

fun digits_val :: "int \<Rightarrow> string \<Rightarrow> int option" where
  "digits_val acc [] = Some acc"
| "digits_val acc [c] =
     (case digit_val c of None \<Rightarrow> None | Some v \<Rightarrow> Some (10 * acc + v))"
| "digits_val acc (c # d # ds) =
     (if c = CHR ''_''
      then (case digit_val d of None \<Rightarrow> None | Some v \<Rightarrow> digits_val (10 * acc + v) ds)
      else (case digit_val c of None \<Rightarrow> None | Some v \<Rightarrow> digits_val (10 * acc + v) (d # ds)))"

fun unsigned_val :: "string \<Rightarrow> int option" where
  "unsigned_val [] = None"
| "unsigned_val (c # cs) =
     (case digit_val c of None \<Rightarrow> None | Some v \<Rightarrow> digits_val v cs)"

definition py_int :: "string \<Rightarrow> int option" where
  "py_int s =
     (case strip s of
        [] \<Rightarrow> None
      | c # cs \<Rightarrow>
          if c = CHR ''-'' then map_option uminus (unsigned_val cs)
          else if c = CHR ''+'' then unsigned_val cs
          else unsigned_val (c # cs))"

section \<open>The backend handle\<close>

text \<open>
  The jtop library is outside the repository.  Its handle is modelled by what each
  operation the script performs on it does in one invocation: return a value or raise.
  \<open>jetson.ok()\<close> is called twice, before the management actions and again before the
  reads, and may answer differently.  An attribute that the script reads several times
  (\<open>jetson.nvpmodel\<close>, \<open>jetson.jetson_clocks\<close>) gives the same outcome each time.
  Leaving the \<open>with\<close> block releases the handle; the release is taken not to raise and
  not to swallow an exception.

  \<open>jetson.nvpmodel\<close> and \<open>jetson.jetson_clocks\<close> are \<open>None\<close> or objects of the library
  with a truth value of their own (\<open>__bool__\<close>) and the attributes the script reads.
\<close>

record nvp_obj =
  nvp_truth :: bool
  nvp_name :: "exn + pyval"
  nvp_id :: "exn + pyval"
  nvp_models :: "exn + pyval"

record clocks_obj =
  clk_truth :: bool
  clk_status :: "exn + pyval"
  clk_boot :: "exn + pyval"

record handle =
  h_ok1 :: "exn + bool"
  h_ok2 :: "exn + bool"
  h_set_clocks :: "exn option"
  h_set_clocks_boot :: "exn option"
  h_set_nvpmodel :: "pyval \<Rightarrow> exn option"
  h_board :: "exn + pyval"
  h_nvpmodel :: "exn + nvp_obj option"
  h_jetson_clocks :: "exn + clocks_obj option"
  h_cpu :: "exn + pyval"
  h_gpu :: "exn + pyval"
  h_engine :: "exn + pyval"
  h_memory :: "exn + pyval"
  h_temperature :: "exn + pyval"
  h_fan :: "exn + pyval"
  h_processes :: "exn + pyval"
  h_disk :: "exn + pyval"

text \<open>What the script does to the backend, in order.\<close>

datatype event = SetClocks | SetClocksBoot | SetNvpmodel pyval | Sleep

type_synonym pydict = "(string \<times> pyval) list"

section \<open>Management actions (lines 14 to 34)\<close>

definition clocks_action :: "handle \<Rightarrow> pydict \<Rightarrow> event list \<times> pydict" where
  "clocks_action h data =
     (case h_set_clocks h of
        Some e \<Rightarrow> ([SetClocks], dict_set data ''clocks_action_error'' (PStr (str_exn e)))
      | None \<Rightarrow>
          (case h_set_clocks_boot h of
             Some e \<Rightarrow>
               ([SetClocks, SetClocksBoot],
                dict_set data ''clocks_action_error'' (PStr (str_exn e)))
           | None \<Rightarrow>
               ([SetClocks, SetClocksBoot],
                dict_set data ''clocks_action''
                  (PStr ''Enabled jetson_clocks and set to boot''))))"

text \<open>Lines 25 to 28: \<open>int(set_nvpmodel)\<close>, or the string itself on \<open>ValueError\<close>.\<close>

definition nvpmodel_val :: "string \<Rightarrow> pyval" where
  "nvpmodel_val s = (case py_int s of Some i \<Rightarrow> PInt i | None \<Rightarrow> PStr s)"

text \<open>The text of \<open>val\<close> inside the f-string of line 32.\<close>

fun format_val :: "pyval \<Rightarrow> string" where
  "format_val (PInt i) = str_int i"
| "format_val (PStr s) = s"
| "format_val v = []"

definition nvpmodel_action :: "handle \<Rightarrow> string \<Rightarrow> pydict \<Rightarrow> event list \<times> pydict" where
  "nvpmodel_action h s data =
     (let val = nvpmodel_val s
      in case h_set_nvpmodel h val of
           Some e \<Rightarrow>
             ([SetNvpmodel val], dict_set data ''nvpmodel_action_error'' (PStr (str_exn e)))
         | None \<Rightarrow>
             ([SetNvpmodel val, Sleep],
              dict_set data ''nvpmodel_action'' (PStr (''Set nvpmodel to '' @ format_val val))))"

definition management_actions ::
  "bool \<Rightarrow> string option \<Rightarrow> handle \<Rightarrow> pydict \<Rightarrow> event list \<times> pydict" where
  "management_actions enable_clocks set_nvpmodel h data =
     (let (ev1, data1) = (if enable_clocks then clocks_action h data else ([], data));
          (ev2, data2) = (case set_nvpmodel of
                            None \<Rightarrow> ([], data1)
                          | Some s \<Rightarrow> nvpmodel_action h s data1)
      in (ev1 @ ev2, data2))"

section \<open>Category extraction (lines 37 to 143)\<close>

text \<open>\<open>d.get(k1, {}).get(k2, dflt)\<close>, the lookup most categories are made of.\<close>

definition get2 :: "pyval \<Rightarrow> string \<Rightarrow> string \<Rightarrow> pyval \<Rightarrow> exn + pyval" where
  "get2 d k1 k2 dflt = py_bind (py_get d k1 (PDict [])) (\<lambda>inner. py_get inner k2 dflt)"

definition board_category :: "pyval \<Rightarrow> exn + pyval" where
  "board_category board =
     py_bind (get2 board ''hardware'' ''Model'' (PStr ''Unknown'')) (\<lambda>model.
     py_bind (get2 board ''hardware'' ''Serial Number'' (PStr ''Unknown'')) (\<lambda>serial.
     py_bind (get2 board ''hardware'' ''L4T'' (PStr ''Unknown'')) (\<lambda>l4t.
     py_bind (get2 board ''hardware'' ''Jetpack'' (PStr ''Unknown'')) (\<lambda>jetpack.
     py_bind (get2 board ''hardware'' ''Module'' (PStr ''Unknown'')) (\<lambda>module.
     Inr (PDict [(''model'', model), (''serial'', serial), (''l4t'', l4t),
                 (''jetpack'', jetpack), (''module'', module)]))))))"

definition libraries_category :: "pyval \<Rightarrow> exn + pyval" where
  "libraries_category board = py_get board ''libraries'' (PDict [])"

definition nvpmodel_default :: pyval where
  "nvpmodel_default =
     PDict [(''name'', PStr ''Unknown''), (''id'', PInt (- 1)), (''models'', PList [])]"

definition nvpmodel_category :: "nvp_obj option \<Rightarrow> exn + pyval" where
  "nvpmodel_category nv =
     (case nv of
        None \<Rightarrow> Inr nvpmodel_default
      | Some ob \<Rightarrow>
          if nvp_truth ob
          then py_bind (nvp_name ob) (\<lambda>name.
               py_bind (nvp_id ob) (\<lambda>ident.
               py_bind (nvp_models ob) (\<lambda>models.
               Inr (PDict [(''name'', name), (''id'', ident), (''models'', models)]))))
          else Inr nvpmodel_default)"

definition clocks_default :: pyval where
  "clocks_default =
     PDict [(''active'', PBool False), (''status'', PStr ''inactive''), (''boot'', PBool False)]"

text \<open>Lines 58 to 65: the branch is taken on the truth value of the object.\<close>

definition jetson_clocks_category :: "clocks_obj option \<Rightarrow> exn + pyval" where
  "jetson_clocks_category jc =
     (case jc of
        None \<Rightarrow> Inr clocks_default
      | Some ob \<Rightarrow>
          if clk_truth ob
          then py_bind (clk_status ob) (\<lambda>status.
               py_bind (clk_boot ob) (\<lambda>boot.
               Inr (PDict [(''active'', PBool (clk_truth ob)), (''status'', status),
                           (''boot'', boot)])))
          else Inr clocks_default)"

fun count_online :: "pyval list \<Rightarrow> exn + nat" where
  "count_online [] = Inr 0"
| "count_online (c # cs) =
     py_bind (py_get c ''online'' (PBool False)) (\<lambda>on.
     py_bind (count_online cs) (\<lambda>n. Inr (if py_truthy on then Suc n else n)))"

definition rounded2 :: "pyval \<Rightarrow> string \<Rightarrow> string \<Rightarrow> exn + pyval" where
  "rounded2 d k1 k2 = py_bind (get2 d k1 k2 (PInt 0)) py_round1"

definition cpu_category :: "pyval \<Rightarrow> exn + pyval" where
  "cpu_category cpu_info =
     py_bind (rounded2 cpu_info ''total'' ''user'') (\<lambda>user.
     py_bind (rounded2 cpu_info ''total'' ''system'') (\<lambda>system.
     py_bind (rounded2 cpu_info ''total'' ''idle'') (\<lambda>idle.
     py_bind (py_get cpu_info ''cpu'' (PList [])) (\<lambda>cores.
     py_bind (py_iter cores) (\<lambda>cs.
     py_bind (count_online cs) (\<lambda>n.
     Inr (PDict [(''total_user'', user), (''total_system'', system), (''total_idle'', idle),
                 (''online_cores'', PInt (int n))])))))))"

definition gpu_category :: "pyval \<Rightarrow> exn + pyval" where
  "gpu_category gpu_info =
     py_bind (get2 gpu_info ''status'' ''load'' (PInt 0)) (\<lambda>load.
     py_bind (get2 gpu_info ''freq'' ''cur'' (PInt 0)) (\<lambda>cur.
     py_bind (get2 gpu_info ''freq'' ''max'' (PInt 0)) (\<lambda>mx.
     Inr (PDict [(''load'', load), (''curr_freq'', cur), (''max_freq'', mx)]))))"

fun engine_items :: "pydict \<Rightarrow> pydict \<Rightarrow> exn + pydict" where
  "engine_items acc [] = Inr acc"
| "engine_items acc (kv # rest) =
     py_bind (py_get (snd kv) ''online'' (PBool False)) (\<lambda>on.
     py_bind (py_get (snd kv) ''cur'' (PInt 0)) (\<lambda>cur.
     engine_items (dict_set acc (fst kv) (PDict [(''online'', on), (''cur'', cur)])) rest))"

fun engine_groups :: "pydict \<Rightarrow> pydict \<Rightarrow> exn + pydict" where
  "engine_groups acc [] = Inr acc"
| "engine_groups acc (kv # rest) =
     py_bind (py_items (snd kv)) (\<lambda>items.
     py_bind (engine_items [] items) (\<lambda>g.
     engine_groups (dict_set acc (fst kv) (PDict g)) rest))"

definition engines_category :: "pyval \<Rightarrow> exn + pyval" where
  "engines_category engines =
     py_bind (py_items engines) (\<lambda>groups.
     py_bind (engine_groups [] groups) (\<lambda>r. Inr (PDict r)))"

definition ram_category :: "pyval \<Rightarrow> exn + pyval" where
  "ram_category memory =
     py_bind (get2 memory ''RAM'' ''tot'' (PInt 0)) (\<lambda>tot.
     py_bind (get2 memory ''RAM'' ''used'' (PInt 0)) (\<lambda>used.
     py_bind (get2 memory ''RAM'' ''free'' (PInt 0)) (\<lambda>free.
     Inr (PDict [(''total'', tot), (''used'', used), (''free'', free)]))))"

text \<open>Lines 104 to 107: two entries.\<close>

definition swap_category :: "pyval \<Rightarrow> exn + pyval" where
  "swap_category memory =
     py_bind (get2 memory ''SWAP'' ''tot'' (PInt 0)) (\<lambda>tot.
     py_bind (get2 memory ''SWAP'' ''used'' (PInt 0)) (\<lambda>used.
     Inr (PDict [(''total'', tot), (''used'', used)])))"

text \<open>Line 111: the filter is evaluated first, then \<open>v['temp']\<close> with no default.\<close>

fun temperature_items :: "pydict \<Rightarrow> pydict \<Rightarrow> exn + pydict" where
  "temperature_items acc [] = Inr acc"
| "temperature_items acc (kv # rest) =
     py_bind (py_get (snd kv) ''online'' (PBool False)) (\<lambda>on.
     if py_truthy on
     then py_bind (py_getitem_str (snd kv) ''temp'') (\<lambda>t.
          py_bind (py_round1 t) (\<lambda>r.
          temperature_items (dict_set acc (fst kv) r) rest))
     else temperature_items acc rest)"

definition temperature_category :: "pyval \<Rightarrow> exn + pyval" where
  "temperature_category temp_info =
     py_bind (py_items temp_info) (\<lambda>items.
     py_bind (temperature_items [] items) (\<lambda>r. Inr (PDict r)))"

fun is_list :: "pyval \<Rightarrow> bool" where
  "is_list (PList _) = True"
| "is_list _ = False"

text \<open>Line 115.\<close>

definition fan_speed :: "pyval \<Rightarrow> exn + pyval" where
  "fan_speed fan_info =
     py_bind (py_get fan_info ''speed'' PNone) (\<lambda>sp.
     if is_list sp
     then py_bind (py_get fan_info ''speed'' (PList [PInt 0])) (\<lambda>l. py_index l 0)
     else py_get fan_info ''speed'' (PInt 0))"

definition fan_category :: "pyval \<Rightarrow> exn + pyval" where
  "fan_category fan_info =
     py_bind (fan_speed fan_info) (\<lambda>speed.
     py_bind (py_get fan_info ''profile'' (PStr ''Unknown'')) (\<lambda>profile.
     py_bind (if profile = PStr ''Unknown''
              then py_bind (py_get fan_info ''control'' (PStr ''Unknown'')) (\<lambda>c.
                   py_get fan_info ''governor'' c)
              else Inr profile) (\<lambda>profile'.
     Inr (PDict [(''speed'', speed), (''profile'', profile')]))))"

text \<open>Lines 126 to 135.\<close>

definition process_entry :: "pyval \<Rightarrow> exn + pyval" where
  "process_entry p =
     py_bind (py_index p 0) (\<lambda>pid.
     py_bind (py_index p 1) (\<lambda>user.
     py_bind (py_index p 8) (\<lambda>gpu_mem.
     py_bind (py_index p 9) (\<lambda>name.
     Inr (PDict [(''pid'', pid), (''user'', user), (''gpu_mem'', gpu_mem),
                 (''name'', name)])))))"

fun process_entries :: "pyval list \<Rightarrow> exn + pyval list" where
  "process_entries [] = Inr []"
| "process_entries (p # ps) =
     py_bind (py_len p) (\<lambda>n.
     if 10 \<le> n
     then py_bind (process_entry p) (\<lambda>e.
          py_bind (process_entries ps) (\<lambda>rest. Inr (e # rest)))
     else process_entries ps)"

definition processes_category :: "pyval \<Rightarrow> exn + pyval" where
  "processes_category procs =
     py_bind (py_iter procs) (\<lambda>ps.
     py_bind (process_entries ps) (\<lambda>es. Inr (PList es)))"

definition disk_category :: "pyval \<Rightarrow> exn + pyval" where
  "disk_category disk_info =
     py_bind (py_get disk_info ''total'' (PInt 0)) (\<lambda>total.
     py_bind (py_get disk_info ''used'' (PInt 0)) (\<lambda>used.
     py_bind (py_get disk_info ''available'' (PInt 0)) (\<lambda>available.
     Inr (PDict [(''total'', total), (''used'', used), (''available'', available)]))))"

section \<open>The snapshot and the top level (lines 8 to 151)\<close>

text \<open>
  The categories in the order the script reads and stores them, each with the read of
  the handle attribute it is made from.  \<open>board\<close> and \<open>libraries\<close> come from the one
  read of \<open>jetson.board\<close>, \<open>ram\<close> and \<open>swap\<close> from the one read of \<open>jetson.memory\<close>.
\<close>

definition categories :: "(string \<times> (handle \<Rightarrow> exn + pyval)) list" where
  "categories =
     [(''board'', \<lambda>h. py_bind (h_board h) board_category),
      (''libraries'', \<lambda>h. py_bind (h_board h) libraries_category),
      (''nvpmodel'', \<lambda>h. py_bind (h_nvpmodel h) nvpmodel_category),
      (''jetson_clocks'', \<lambda>h. py_bind (h_jetson_clocks h) jetson_clocks_category),
      (''cpu'', \<lambda>h. py_bind (h_cpu h) cpu_category),
      (''gpu'', \<lambda>h. py_bind (h_gpu h) gpu_category),
      (''engines'', \<lambda>h. py_bind (h_engine h) engines_category),
      (''ram'', \<lambda>h. py_bind (h_memory h) ram_category),
      (''swap'', \<lambda>h. py_bind (h_memory h) swap_category),
      (''temperature'', \<lambda>h. py_bind (h_temperature h) temperature_category),
      (''fan'', \<lambda>h. py_bind (h_fan h) fan_category),
      (''processes'', \<lambda>h. py_bind (h_processes h) processes_category),
      (''disk'', \<lambda>h. py_bind (h_disk h) disk_category)]"

text \<open>The first category that raises abandons the collection.\<close>

fun read_categories ::
  "(string \<times> (handle \<Rightarrow> exn + pyval)) list \<Rightarrow> handle \<Rightarrow> pydict \<Rightarrow> exn + pydict" where
  "read_categories [] h data = Inr data"
| "read_categories (c # cs) h data =
     py_bind (snd c h) (\<lambda>v. read_categories cs h (dict_set data (fst c) v))"

definition not_ok :: pyval where
  "not_ok = PDict [(''error'', PStr ''jtop is not ok (service might not be running)'')]"

text \<open>The body of the \<open>with\<close> block: what was done to the backend, and the outcome.\<close>

definition with_body ::
  "bool \<Rightarrow> string option \<Rightarrow> handle \<Rightarrow> event list \<times> (exn + pyval)" where
  "with_body enable_clocks set_nvpmodel h =
     (case h_ok1 h of
        Inl e \<Rightarrow> ([], Inl e)
      | Inr ok \<Rightarrow>
          (let (evs, data) = (if ok then management_actions enable_clocks set_nvpmodel h []
                              else ([], []))
           in (evs,
               case h_ok2 h of
                 Inl e \<Rightarrow> Inl e
               | Inr ok' \<Rightarrow>
                   if ok' then py_bind (read_categories categories h data) (\<lambda>d. Inr (PDict d))
                   else Inr not_ok)))"

text \<open>The two handlers of lines 148 to 151.\<close>

fun handler :: "exn \<Rightarrow> pyval" where
  "handler (JtopException m) = PDict [(''error'', PStr (''JtopException: '' @ m))]"
| "handler (PyException m) = PDict [(''error'', PStr (''Unexpected error: '' @ m))]"

text \<open>
  \<open>get_jetson_info\<close>.  The third argument is the outcome of \<open>jtop()\<close> and of entering
  the \<open>with\<close> block: an exception, or the handle.
\<close>

definition get_jetson_info ::
  "bool \<Rightarrow> string option \<Rightarrow> exn + handle \<Rightarrow> event list \<times> pyval" where
  "get_jetson_info enable_clocks set_nvpmodel acq =
     (case acq of
        Inl e \<Rightarrow> ([], handler e)
      | Inr h \<Rightarrow>
          (let (evs, r) = with_body enable_clocks set_nvpmodel h
           in (evs, case r of Inl e \<Rightarrow> handler e | Inr v \<Rightarrow> v)))"

subsection \<open>Shapes of the result\<close>

fun keys_of :: "pyval \<Rightarrow> string list" where
  "keys_of (PDict kvs) = map fst kvs"
| "keys_of v = []"

fun lookup :: "pyval \<Rightarrow> string \<Rightarrow> pyval option" where
  "lookup (PDict kvs) k = map_of kvs k"
| "lookup v k = None"

fun is_error_record :: "pyval \<Rightarrow> bool" where
  "is_error_record (PDict [(k, PStr m)]) = (k = ''error'')"
| "is_error_record v = False"

definition category_keys :: "string list" where
  "category_keys = map fst categories"

definition action_keys :: "string list" where
  "action_keys =
     [''clocks_action'', ''clocks_action_error'', ''nvpmodel_action'', ''nvpmodel_action_error'']"

text \<open>
  A snapshot: a dictionary whose keys are some action keys followed by the thirteen
  categories, with no key \<open>error\<close>.
\<close>

fun is_snapshot :: "pyval \<Rightarrow> bool" where
  "is_snapshot (PDict kvs) =
     (let ks = map fst kvs
      in drop (length ks - length category_keys) ks = category_keys
         \<and> list_all (\<lambda>k. k \<in> set action_keys) (take (length ks - length category_keys) ks)
         \<and> ''error'' \<notin> set ks)"
| "is_snapshot v = False"

text \<open>A handle that is ready at both checks and reports nothing in any category.\<close>

definition empty_handle :: handle where
  "empty_handle =
     \<lparr>h_ok1 = Inr True, h_ok2 = Inr True, h_set_clocks = None, h_set_clocks_boot = None,
      h_set_nvpmodel = (\<lambda>v. None), h_board = Inr (PDict []), h_nvpmodel = Inr None,
      h_jetson_clocks = Inr None, h_cpu = Inr (PDict []), h_gpu = Inr (PDict []),
      h_engine = Inr (PDict []), h_memory = Inr (PDict []), h_temperature = Inr (PDict []),
      h_fan = Inr (PDict []), h_processes = Inr (PList []), h_disk = Inr (PDict [])\<rparr>"

subsection \<open>Notions used in the statements\<close>

text \<open>The dictionary \<open>data\<close> when the reads begin.\<close>

definition actions_data :: "bool \<Rightarrow> bool \<Rightarrow> string option \<Rightarrow> handle \<Rightarrow> pydict" where
  "actions_data ok ec nv h = (if ok then snd (management_actions ec nv h []) else [])"

text \<open>The snapshot in which every category has its default value.\<close>

definition default_snapshot :: pydict where
  "default_snapshot =
     [(''board'', PDict [(''model'', PStr ''Unknown''), (''serial'', PStr ''Unknown''),
                         (''l4t'', PStr ''Unknown''), (''jetpack'', PStr ''Unknown''),
                         (''module'', PStr ''Unknown'')]),
      (''libraries'', PDict []),
      (''nvpmodel'', PDict [(''name'', PStr ''Unknown''), (''id'', PInt (- 1)),
                            (''models'', PList [])]),
      (''jetson_clocks'', PDict [(''active'', PBool False), (''status'', PStr ''inactive''),
                                 (''boot'', PBool False)]),
      (''cpu'', PDict [(''total_user'', PInt 0), (''total_system'', PInt 0),
                       (''total_idle'', PInt 0), (''online_cores'', PInt 0)]),
      (''gpu'', PDict [(''load'', PInt 0), (''curr_freq'', PInt 0), (''max_freq'', PInt 0)]),
      (''engines'', PDict []),
      (''ram'', PDict [(''total'', PInt 0), (''used'', PInt 0), (''free'', PInt 0)]),
      (''swap'', PDict [(''total'', PInt 0), (''used'', PInt 0)]),
      (''temperature'', PDict []),
      (''fan'', PDict [(''speed'', PInt 0), (''profile'', PStr ''Unknown'')]),
      (''processes'', PList []),
      (''disk'', PDict [(''total'', PInt 0), (''used'', PInt 0), (''available'', PInt 0)])]"


text \<open>The fields of a positional record, and the entry made of positions 0, 1, 8 and 9.\<close>

fun fields :: "pyval \<Rightarrow> pyval list" where
  "fields (PList xs) = xs"
| "fields v = []"

definition entry_at :: "pyval \<Rightarrow> pyval" where
  "entry_at p =
     PDict [(''pid'', fields p ! 0), (''user'', fields p ! 1), (''gpu_mem'', fields p ! 8),
            (''name'', fields p ! 9)]"

text \<open>A read that returns, and a list of category reads that all return.\<close>

definition succeeds :: "exn + 'a \<Rightarrow> bool" where
  "succeeds r = (case r of Inl e \<Rightarrow> False | Inr v \<Rightarrow> True)"

definition reads_succeed :: "(string \<times> (handle \<Rightarrow> exn + pyval)) list \<Rightarrow> handle \<Rightarrow> bool" where
  "reads_succeed cs h = list_all (\<lambda>c. succeeds (snd c h)) cs"

text \<open>The value under a key of a mapping, or a default when the key is absent.\<close>

definition field_or :: "pydict \<Rightarrow> string \<Rightarrow> pyval \<Rightarrow> pyval" where
  "field_or d k dflt = (case map_of d k of None \<Rightarrow> dflt | Some v \<Rightarrow> v)"

text \<open>
  The exception, if any, that reaches the handlers of lines 148 to 151: the first one
  raised, in the order of execution, by the acquisition of the handle, by a readiness
  check or by a category read.
\<close>

fun first_failure :: "(string \<times> (handle \<Rightarrow> exn + pyval)) list \<Rightarrow> handle \<Rightarrow> exn option" where
  "first_failure [] h = None"
| "first_failure (c # cs) h =
     (case snd c h of Inl e \<Rightarrow> Some e | Inr v \<Rightarrow> first_failure cs h)"

definition outer_exception :: "exn + handle \<Rightarrow> exn option" where
  "outer_exception acq =
     (case acq of
        Inl e \<Rightarrow> Some e
      | Inr h \<Rightarrow>
          (case h_ok1 h of
             Inl e \<Rightarrow> Some e
           | Inr ok \<Rightarrow>
               (case h_ok2 h of
                  Inl e \<Rightarrow> Some e
                | Inr ok' \<Rightarrow> if ok' then first_failure categories h else None)))"

subsection \<open>Reports of the expected shape\<close>


















section \<open>Shape of the result\<close>

lemma keys_dict_set:
  "map fst (dict_set d k v) = (if k \<in> set (map fst d) then map fst d else map fst d @ [k])"
  by (induction d) force+

lemma py_bind_Inr:
  "py_bind m f = Inr y \<longleftrightarrow> (\<exists>x. m = Inr x \<and> f x = Inr y)"
  by (cases m) (simp_all add: py_bind_def)

lemma py_bind_Inl:
  "py_bind m f = Inl e \<longleftrightarrow> (m = Inl e \<or> (\<exists>x. m = Inr x \<and> f x = Inl e))"
  by (cases m) (simp_all add: py_bind_def)

lemma read_categories_keys:
  "read_categories cs h data = Inr d \<Longrightarrow> distinct (map fst cs) \<Longrightarrow>
   set (map fst cs) \<inter> set (map fst data) = {} \<Longrightarrow>
   map fst d = map fst data @ map fst cs"
proof (induction cs arbitrary: data)
  case Nil
  then show ?case by simp
next
  case (Cons c cs)
  from Cons.prems(1) obtain v where v: "snd c h = Inr v"
    and r: "read_categories cs h (dict_set data (fst c) v) = Inr d"
    by (auto simp: py_bind_Inr)
  have k: "map fst (dict_set data (fst c) v) = map fst data @ [fst c]"
    using Cons.prems(3) by (simp add: keys_dict_set)
  have "map fst d = map fst (dict_set data (fst c) v) @ map fst cs"
  proof (rule Cons.IH [OF r])
    show "distinct (map fst cs)" using Cons.prems(2) by simp
    show "set (map fst cs) \<inter> set (map fst (dict_set data (fst c) v)) = {}"
      using Cons.prems(2,3) by (auto simp: k)
  qed
  then show ?case by (simp add: k)
qed

lemma category_keys_eq:
  "category_keys = [''board'', ''libraries'', ''nvpmodel'', ''jetson_clocks'', ''cpu'', ''gpu'',
     ''engines'', ''ram'', ''swap'', ''temperature'', ''fan'', ''processes'', ''disk'']"
  by (simp add: category_keys_def categories_def)

lemma clocks_action_keys:
  "map fst (snd (clocks_action h [])) \<in> {[''clocks_action''], [''clocks_action_error'']}"
  by (simp add: clocks_action_def split: option.splits)

lemma nvpmodel_action_keys:
  "map fst (snd (nvpmodel_action h s d)) \<in>
     {map fst (dict_set d ''nvpmodel_action'' PNone),
      map fst (dict_set d ''nvpmodel_action_error'' PNone)}"
  by (simp add: nvpmodel_action_def Let_def keys_dict_set split: option.splits)

lemma management_actions_keys:
  "map fst (snd (management_actions ec nv h [])) \<in>
     {[], [''clocks_action''], [''clocks_action_error''],
      [''nvpmodel_action''], [''nvpmodel_action_error''],
      [''clocks_action'', ''nvpmodel_action''], [''clocks_action'', ''nvpmodel_action_error''],
      [''clocks_action_error'', ''nvpmodel_action''],
      [''clocks_action_error'', ''nvpmodel_action_error'']}"
  by (auto simp: management_actions_def clocks_action_def nvpmodel_action_def Let_def
        split: option.splits prod.splits)


lemma is_error_record_iff:
  "is_error_record v \<longleftrightarrow> (\<exists>m. v = PDict [(''error'', PStr m)])"
  by (induction v rule: is_error_record.induct) auto

lemma handler_shape: "is_error_record (handler e) \<and> \<not> is_snapshot (handler e)"
  by (cases e) simp_all

lemma not_ok_shape: "is_error_record not_ok \<and> \<not> is_snapshot not_ok"
  by (simp add: not_ok_def)

lemma snapshot_shape:
  assumes "map fst d = aks @ category_keys" and "set aks \<subseteq> set action_keys"
  shows "is_snapshot (PDict d) \<and> \<not> is_error_record (PDict d)"
proof -
  have e: "''error'' \<notin> set aks" using assms(2) by (auto simp: action_keys_def)
  have c: "''error'' \<notin> set category_keys" by (simp add: category_keys_eq)
  have "is_snapshot (PDict d)"
    using assms e c by (simp add: Let_def list_all_iff subset_iff)
  moreover have "\<not> is_error_record (PDict d)"
  proof
    assume "is_error_record (PDict d)"
    then obtain m where "d = [(''error'', PStr m)]" by (auto simp: is_error_record_iff)
    then have "length (map fst d) = 1" by simp
    then show False by (simp add: assms(1) category_keys_eq)
  qed
  ultimately show ?thesis by simp
qed

lemma distinct_category_keys: "distinct (map fst categories)"
  by (simp add: categories_def)

lemma read_categories_shape:
  assumes "read_categories categories h (snd (management_actions ec nv h [])) = Inr d"
  shows "is_snapshot (PDict d) \<and> \<not> is_error_record (PDict d)"
proof -
  let ?data = "snd (management_actions ec nv h [])"
  have a: "set (map fst ?data) \<subseteq> set action_keys"
    using management_actions_keys [of ec nv h] by (auto simp: action_keys_def)
  have "set (map fst categories) \<inter> set action_keys = {}"
    by (simp add: categories_def action_keys_def)
  with a have "set (map fst categories) \<inter> set (map fst ?data) = {}" by blast
  from read_categories_keys [OF assms distinct_category_keys this]
  have "map fst d = map fst ?data @ category_keys" by (simp add: category_keys_def)
  from snapshot_shape [OF this a] show ?thesis .
qed

lemma read_categories_shape_nil:
  assumes "read_categories categories h [] = Inr d"
  shows "is_snapshot (PDict d) \<and> \<not> is_error_record (PDict d)"
proof -
  from read_categories_keys [OF assms distinct_category_keys]
  have "map fst d = [] @ category_keys" by (simp add: category_keys_def)
  from snapshot_shape [OF this] show ?thesis by simp
qed

lemma result_error_xor_snapshot:
  "is_error_record (snd (get_jetson_info ec nv acq)) \<noteq> is_snapshot (snd (get_jetson_info ec nv acq))"
proof (cases acq)
  case (Inl e)
  then show ?thesis using handler_shape [of e] by (simp add: get_jetson_info_def)
next
  case (Inr h)
  show ?thesis
  proof (cases "h_ok1 h")
    case (Inl e)
    then show ?thesis using Inr handler_shape [of e]
      by (simp add: get_jetson_info_def with_body_def)
  next
    case ok1: (Inr ok)
    show ?thesis
    proof (cases "h_ok2 h")
      case (Inl e)
      then show ?thesis using Inr ok1 handler_shape [of e]
        by (simp add: get_jetson_info_def with_body_def split: prod.splits)
    next
      case ok2: (Inr ok')
      show ?thesis
      proof (cases ok')
        case False
        then show ?thesis using Inr ok1 ok2 not_ok_shape
          by (simp add: get_jetson_info_def with_body_def split: prod.splits)
      next
        case True
        define data where "data = (if ok then snd (management_actions ec nv h []) else [])"
        have r: "snd (get_jetson_info ec nv acq) =
                 (case read_categories categories h data of
                    Inl e \<Rightarrow> handler e | Inr d \<Rightarrow> PDict d)"
          using Inr ok1 ok2 True
          by (simp add: get_jetson_info_def with_body_def data_def py_bind_def
                 split: prod.splits sum.splits)
        show ?thesis
        proof (cases "read_categories categories h data")
          case (Inl e)
          then show ?thesis using r handler_shape [of e] by simp
        next
          case (Inr d)
          then have "is_snapshot (PDict d) \<and> \<not> is_error_record (PDict d)"
            using read_categories_shape [of h ec nv d] read_categories_shape_nil [of h d]
            by (cases ok) (simp_all add: data_def)
          then show ?thesis using r Inr by simp
        qed
      qed
    qed
  qed
qed

text \<open>
  C1.  Whatever the flag, the power-model argument and the behaviour of the backend,
  \<open>get_jetson_info\<close> returns a value (it is a total function into values: no exception
  escapes it), and that value is either a single-key error record or a snapshot, never
  both: a snapshot has no key \<open>error\<close>.
\<close>

theorem get_jetson_info_error_xor_snapshot:
  "is_error_record (snd (get_jetson_info ec nv acq))
   \<noteq> is_snapshot (snd (get_jetson_info ec nv acq))"
  by (rule result_error_xor_snapshot)

theorem get_jetson_info_error_xor_snapshot_witness:
  "is_error_record (snd (get_jetson_info True (Some ''2'') (Inl (JtopException ''down''))))
   \<noteq> is_snapshot (snd (get_jetson_info True (Some ''2'') (Inl (JtopException ''down''))))"
  by (rule get_jetson_info_error_xor_snapshot)

section \<open>The path to a snapshot\<close>

lemma map_of_dict_set:
  "map_of (dict_set d k v) k' = (if k' = k then Some v else map_of d k')"
  by (induction d) auto

lemma read_categories_other:
  "read_categories cs h data = Inr d \<Longrightarrow> k \<notin> set (map fst cs) \<Longrightarrow> map_of d k = map_of data k"
proof (induction cs arbitrary: data)
  case Nil
  then show ?case by simp
next
  case (Cons c cs)
  from Cons.prems(1) obtain v where
    r: "read_categories cs h (dict_set data (fst c) v) = Inr d"
    by (auto simp: py_bind_Inr)
  from Cons.IH [OF r] Cons.prems(2) show ?case by (simp add: map_of_dict_set)
qed

lemma read_categories_lookup:
  "read_categories cs h data = Inr d \<Longrightarrow> distinct (map fst cs) \<Longrightarrow> (k, f) \<in> set cs \<Longrightarrow>
   \<exists>v. f h = Inr v \<and> map_of d k = Some v"
proof (induction cs arbitrary: data)
  case Nil
  then show ?case by simp
next
  case (Cons c cs)
  from Cons.prems(1) obtain v where v: "snd c h = Inr v"
    and r: "read_categories cs h (dict_set data (fst c) v) = Inr d"
    by (auto simp: py_bind_Inr)
  show ?case
  proof (cases "(k, f) = c")
    case True
    then have "k \<notin> set (map fst cs)" using Cons.prems(2) by force
    from read_categories_other [OF r this] True v show ?thesis
      by (auto simp: map_of_dict_set)
  next
    case False
    then have "(k, f) \<in> set cs" using Cons.prems(3) by simp
    from Cons.IH [OF r _ this] Cons.prems(2) show ?thesis by simp
  qed
qed


lemma get_jetson_info_ready:
  assumes "h_ok1 h = Inr ok" and "h_ok2 h = Inr True"
  shows "snd (get_jetson_info ec nv (Inr h)) =
         (case read_categories categories h (actions_data ok ec nv h) of
            Inl e \<Rightarrow> handler e | Inr d \<Rightarrow> PDict d)"
  using assms
  by (simp add: get_jetson_info_def with_body_def actions_data_def py_bind_def
         split: prod.splits sum.splits)

lemma get_jetson_info_ok1_raises:
  "h_ok1 h = Inl e \<Longrightarrow> get_jetson_info ec nv (Inr h) = ([], handler e)"
  by (simp add: get_jetson_info_def with_body_def)

lemma get_jetson_info_ok2_raises:
  "h_ok1 h = Inr ok \<Longrightarrow> h_ok2 h = Inl e \<Longrightarrow> snd (get_jetson_info ec nv (Inr h)) = handler e"
  by (auto simp: get_jetson_info_def with_body_def split: prod.splits)

lemma get_jetson_info_not_ready:
  "h_ok1 h = Inr ok \<Longrightarrow> h_ok2 h = Inr False \<Longrightarrow> snd (get_jetson_info ec nv (Inr h)) = not_ok"
  by (auto simp: get_jetson_info_def with_body_def split: prod.splits)

lemma snapshot_origin:
  assumes "is_snapshot (snd (get_jetson_info ec nv (Inr h)))"
  shows "\<exists>ok d. h_ok1 h = Inr ok \<and> h_ok2 h = Inr True
           \<and> read_categories categories h (actions_data ok ec nv h) = Inr d
           \<and> snd (get_jetson_info ec nv (Inr h)) = PDict d"
proof (cases "h_ok1 h")
  case (Inl e)
  then show ?thesis using assms handler_shape [of e]
    by (simp add: get_jetson_info_ok1_raises)
next
  case ok1: (Inr ok)
  show ?thesis
  proof (cases "h_ok2 h")
    case (Inl e)
    then show ?thesis using assms handler_shape [of e]
      by (simp add: get_jetson_info_ok2_raises [OF ok1])
  next
    case ok2: (Inr ok')
    show ?thesis
    proof (cases ok')
      case False
      then show ?thesis using assms ok2 not_ok_shape
        by (simp add: get_jetson_info_not_ready [OF ok1])
    next
      case True
      with ok2 have ok2': "h_ok2 h = Inr True" by simp
      note r = get_jetson_info_ready [OF ok1 ok2', of ec nv]
      show ?thesis
      proof (cases "read_categories categories h (actions_data ok ec nv h)")
        case (Inl e)
        then show ?thesis using assms r handler_shape [of e] by simp
      next
        case (Inr d)
        then show ?thesis using r ok1 ok2' by simp
      qed
    qed
  qed
qed

lemma snapshot_category:
  assumes "is_snapshot (snd (get_jetson_info ec nv (Inr h)))" and "(k, f) \<in> set categories"
  shows "\<exists>v. f h = Inr v \<and> lookup (snd (get_jetson_info ec nv (Inr h))) k = Some v"
proof -
  from snapshot_origin [OF assms(1)] obtain ok d where
    r: "read_categories categories h (actions_data ok ec nv h) = Inr d"
    and s: "snd (get_jetson_info ec nv (Inr h)) = PDict d" by blast
  from read_categories_lookup [OF r distinct_category_keys assms(2)] s
  show ?thesis by simp
qed

section \<open>A backend that reports nothing\<close>

lemma board_category_empty:
  "board_category (PDict []) =
     Inr (PDict [(''model'', PStr ''Unknown''), (''serial'', PStr ''Unknown''),
                 (''l4t'', PStr ''Unknown''), (''jetpack'', PStr ''Unknown''),
                 (''module'', PStr ''Unknown'')])"
  by (simp add: board_category_def get2_def py_bind_def)

lemma libraries_category_empty: "libraries_category (PDict []) = Inr (PDict [])"
  by (simp add: libraries_category_def)

lemma nvpmodel_category_None: "nvpmodel_category None = Inr nvpmodel_default"
  by (simp add: nvpmodel_category_def)

lemma jetson_clocks_category_None: "jetson_clocks_category None = Inr clocks_default"
  by (simp add: jetson_clocks_category_def)

lemma cpu_category_empty:
  "cpu_category (PDict []) =
     Inr (PDict [(''total_user'', PInt 0), (''total_system'', PInt 0),
                 (''total_idle'', PInt 0), (''online_cores'', PInt 0)])"
  by (simp add: cpu_category_def rounded2_def get2_def py_bind_def)

lemma gpu_category_empty:
  "gpu_category (PDict []) =
     Inr (PDict [(''load'', PInt 0), (''curr_freq'', PInt 0), (''max_freq'', PInt 0)])"
  by (simp add: gpu_category_def get2_def py_bind_def)

lemma engines_category_empty: "engines_category (PDict []) = Inr (PDict [])"
  by (simp add: engines_category_def py_bind_def)

lemma ram_category_empty:
  "ram_category (PDict []) =
     Inr (PDict [(''total'', PInt 0), (''used'', PInt 0), (''free'', PInt 0)])"
  by (simp add: ram_category_def get2_def py_bind_def)

lemma swap_category_empty:
  "swap_category (PDict []) = Inr (PDict [(''total'', PInt 0), (''used'', PInt 0)])"
  by (simp add: swap_category_def get2_def py_bind_def)

lemma temperature_category_empty: "temperature_category (PDict []) = Inr (PDict [])"
  by (simp add: temperature_category_def py_bind_def)

lemma fan_category_empty:
  "fan_category (PDict []) = Inr (PDict [(''speed'', PInt 0), (''profile'', PStr ''Unknown'')])"
  by (simp add: fan_category_def fan_speed_def py_bind_def)

lemma processes_category_empty: "processes_category (PList []) = Inr (PList [])"
  by (simp add: processes_category_def py_bind_def)

lemma disk_category_empty:
  "disk_category (PDict []) =
     Inr (PDict [(''total'', PInt 0), (''used'', PInt 0), (''available'', PInt 0)])"
  by (simp add: disk_category_def py_bind_def)

lemmas category_empty =
  board_category_empty libraries_category_empty nvpmodel_category_None
  jetson_clocks_category_None cpu_category_empty gpu_category_empty engines_category_empty
  ram_category_empty swap_category_empty temperature_category_empty fan_category_empty
  processes_category_empty disk_category_empty

lemma py_bind_simps [simp]:
  "py_bind (Inl e) f = Inl e" "py_bind (Inr x) f = f x"
  by (simp_all add: py_bind_def)

lemma read_categories_empty:
  assumes "h_board h = Inr (PDict [])" "h_nvpmodel h = Inr None" "h_jetson_clocks h = Inr None"
    "h_cpu h = Inr (PDict [])" "h_gpu h = Inr (PDict [])" "h_engine h = Inr (PDict [])"
    "h_memory h = Inr (PDict [])" "h_temperature h = Inr (PDict [])"
    "h_fan h = Inr (PDict [])" "h_processes h = Inr (PList [])" "h_disk h = Inr (PDict [])"
  shows "read_categories categories h [] = Inr default_snapshot"
  using assms
  by (simp add: categories_def category_empty default_snapshot_def nvpmodel_default_def
        clocks_default_def)

section \<open>Readiness and the management actions\<close>

lemma no_events_first_not_ready:
  "h_ok1 h = Inr False \<Longrightarrow> fst (get_jetson_info ec nv (Inr h)) = []"
  by (simp add: get_jetson_info_def with_body_def split: prod.splits)

lemma no_action_keys:
  assumes "h_ok1 h = Inr False"
  shows "set (keys_of (snd (get_jetson_info ec nv (Inr h)))) \<inter> set action_keys = {}"
proof (cases "is_snapshot (snd (get_jetson_info ec nv (Inr h)))")
  case True
  from snapshot_origin [OF True] assms obtain d where
    r: "read_categories categories h [] = Inr d"
    and s: "snd (get_jetson_info ec nv (Inr h)) = PDict d"
    by (auto simp: actions_data_def)
  from read_categories_keys [OF r distinct_category_keys]
  have "map fst d = category_keys" by (simp add: category_keys_def)
  then show ?thesis using s by (simp add: category_keys_eq action_keys_def)
next
  case False
  with result_error_xor_snapshot [of ec nv "Inr h"]
  obtain m where "snd (get_jetson_info ec nv (Inr h)) = PDict [(''error'', PStr m)]"
    by (auto simp: is_error_record_iff)
  then show ?thesis by (simp add: action_keys_def)
qed

text \<open>
  C3 (as stated).  The handle answers not-ready at the first check and ready at the
  re-check of line 36: the reads are made and a snapshot is returned, not the record
  \<open>not_ok\<close>.
\<close>

theorem not_ready_first_check_counterexample:
  "h_ok1 (empty_handle\<lparr>h_ok1 := Inr False\<rparr>) = Inr False
   \<and> snd (get_jetson_info False None (Inr (empty_handle\<lparr>h_ok1 := Inr False\<rparr>)))
       = PDict default_snapshot
   \<and> PDict default_snapshot \<noteq> not_ok"
proof -
  let ?h = "empty_handle\<lparr>h_ok1 := Inr False\<rparr>"
  have 1: "h_ok1 ?h = Inr False" by simp
  have 2: "h_ok2 ?h = Inr True" by (simp add: empty_handle_def)
  have "read_categories categories ?h [] = Inr default_snapshot"
    by (rule read_categories_empty) (simp_all add: empty_handle_def)
  then have "snd (get_jetson_info False None (Inr ?h)) = PDict default_snapshot"
    by (simp add: get_jetson_info_ready [OF 1 2] actions_data_def)
  moreover have "PDict default_snapshot \<noteq> not_ok"
    by (simp add: default_snapshot_def not_ok_def)
  ultimately show ?thesis using 1 by simp
qed

text \<open>
  C3 (amended).  When the handle answers not-ready at the first check, no action is
  attempted and no action key appears in the output, whatever the flag and the
  power-model argument; the output is exactly the record \<open>not_ok\<close> when the handle also
  answers not-ready at the re-check.
\<close>

theorem not_ready_first_check:
  assumes "h_ok1 h = Inr False"
  shows "fst (get_jetson_info ec nv (Inr h)) = []
         \<and> set (keys_of (snd (get_jetson_info ec nv (Inr h)))) \<inter> set action_keys = {}
         \<and> (h_ok2 h = Inr False \<longrightarrow> snd (get_jetson_info ec nv (Inr h)) = not_ok)"
  using no_action_keys [OF assms, of ec nv] no_events_first_not_ready [OF assms, of ec nv]
    get_jetson_info_not_ready [OF assms, of ec nv]
  by blast


theorem not_ready_first_check_witness:
  "h_ok1 (empty_handle\<lparr>h_ok1 := Inr False, h_ok2 := Inr False\<rparr>) = Inr False
   \<and> get_jetson_info True (Some ''2'')
        (Inr (empty_handle\<lparr>h_ok1 := Inr False, h_ok2 := Inr False\<rparr>)) = ([], not_ok)"
proof -
  let ?h = "empty_handle\<lparr>h_ok1 := Inr False, h_ok2 := Inr False\<rparr>"
  have 1: "h_ok1 ?h = Inr False" by simp
  have 2: "h_ok2 ?h = Inr False" by simp
  note t = not_ready_first_check [OF 1, of True "Some ''2''"]
  from t have a: "fst (get_jetson_info True (Some ''2'') (Inr ?h)) = []" by (rule conjunct1)
  from t 2 have b: "snd (get_jetson_info True (Some ''2'') (Inr ?h)) = not_ok" by blast
  from a b have "get_jetson_info True (Some ''2'') (Inr ?h) = ([], not_ok)"
    by (rule prod_eqI [of _ "([], not_ok)", simplified])
  with 1 show ?thesis by (rule conjI)
qed










section \<open>The snapshot of a handle whose reads all succeed\<close>

lemma dict_set_after:
  "k \<notin> set (map fst d) \<Longrightarrow> dict_set (d @ rest) k v = d @ dict_set rest k v"
  by (induction d) auto

lemma actions_data_keys: "set (map fst (actions_data ok ec nv h)) \<subseteq> set action_keys"
  using management_actions_keys [of ec nv h] by (auto simp: actions_data_def action_keys_def)

lemma dict_set_after_actions:
  assumes "k \<in> set category_keys"
  shows "dict_set (actions_data ok ec nv h @ rest) k v = actions_data ok ec nv h @ dict_set rest k v"
proof (rule dict_set_after)
  have "set category_keys \<inter> set action_keys = {}"
    by (simp add: category_keys_eq action_keys_def)
  with assms actions_data_keys [of ok ec nv h]
  show "k \<notin> set (map fst (actions_data ok ec nv h))" by blast
qed

lemma read_categories_all:
  assumes "py_bind (h_board h) board_category = Inr v1"
    and "py_bind (h_board h) libraries_category = Inr v2"
    and "py_bind (h_nvpmodel h) nvpmodel_category = Inr v3"
    and "py_bind (h_jetson_clocks h) jetson_clocks_category = Inr v4"
    and "py_bind (h_cpu h) cpu_category = Inr v5"
    and "py_bind (h_gpu h) gpu_category = Inr v6"
    and "py_bind (h_engine h) engines_category = Inr v7"
    and "py_bind (h_memory h) ram_category = Inr v8"
    and "py_bind (h_memory h) swap_category = Inr v9"
    and "py_bind (h_temperature h) temperature_category = Inr v10"
    and "py_bind (h_fan h) fan_category = Inr v11"
    and "py_bind (h_processes h) processes_category = Inr v12"
    and "py_bind (h_disk h) disk_category = Inr v13"
  shows "read_categories categories h (actions_data ok ec nv h @ []) =
         Inr (actions_data ok ec nv h @
              [(''board'', v1), (''libraries'', v2), (''nvpmodel'', v3), (''jetson_clocks'', v4),
               (''cpu'', v5), (''gpu'', v6), (''engines'', v7), (''ram'', v8), (''swap'', v9),
               (''temperature'', v10), (''fan'', v11), (''processes'', v12), (''disk'', v13)])"
  unfolding categories_def
  by (simp only: read_categories.simps fst_conv snd_conv assms py_bind_simps)
     (simp add: dict_set_after_actions category_keys_eq del: append_Nil2)


lemma get_jetson_info_snapshot:
  assumes "h_ok1 h = Inr ok" and "h_ok2 h = Inr True"
    and "py_bind (h_board h) board_category = Inr v1"
    and "py_bind (h_board h) libraries_category = Inr v2"
    and "py_bind (h_nvpmodel h) nvpmodel_category = Inr v3"
    and "py_bind (h_jetson_clocks h) jetson_clocks_category = Inr v4"
    and "py_bind (h_cpu h) cpu_category = Inr v5"
    and "py_bind (h_gpu h) gpu_category = Inr v6"
    and "py_bind (h_engine h) engines_category = Inr v7"
    and "py_bind (h_memory h) ram_category = Inr v8"
    and "py_bind (h_memory h) swap_category = Inr v9"
    and "py_bind (h_temperature h) temperature_category = Inr v10"
    and "py_bind (h_fan h) fan_category = Inr v11"
    and "py_bind (h_processes h) processes_category = Inr v12"
    and "py_bind (h_disk h) disk_category = Inr v13"
  shows "snd (get_jetson_info ec nv (Inr h)) =
         PDict (actions_data ok ec nv h @
              [(''board'', v1), (''libraries'', v2), (''nvpmodel'', v3), (''jetson_clocks'', v4),
               (''cpu'', v5), (''gpu'', v6), (''engines'', v7), (''ram'', v8), (''swap'', v9),
               (''temperature'', v10), (''fan'', v11), (''processes'', v12), (''disk'', v13)])"
  using read_categories_all [OF assms(3-15), of ok ec nv]
  by (simp add: get_jetson_info_ready [OF assms(1,2)])

lemma succeeds_iff: "succeeds r \<longleftrightarrow> (\<exists>v. r = Inr v)"
  by (cases r) (simp_all add: succeeds_def)

lemma succeeds_simps [simp]: "succeeds (Inr v)" "\<not> succeeds (Inl e)"
  by (simp_all add: succeeds_def)

lemma read_categories_succeed:
  "reads_succeed cs h \<Longrightarrow> \<exists>d. read_categories cs h data = Inr d"
proof (induction cs arbitrary: data)
  case Nil
  then show ?case by simp
next
  case (Cons c cs)
  then obtain v where "snd c h = Inr v" and "reads_succeed cs h"
    by (auto simp: reads_succeed_def succeeds_iff)
  with Cons.IH show ?case by simp
qed

lemma read_categories_first_failure:
  "reads_succeed cs1 h \<Longrightarrow> snd c h = Inl e \<Longrightarrow>
   read_categories (cs1 @ c # cs2) h data = Inl e"
proof (induction cs1 arbitrary: data)
  case Nil
  then show ?case by simp
next
  case (Cons c1 cs1)
  then obtain v where "snd c1 h = Inr v" and "reads_succeed cs1 h"
    by (auto simp: reads_succeed_def succeeds_iff)
  with Cons.IH Cons.prems(2) show ?case by simp
qed

lemma reads_succeed_snapshot:
  assumes "h_ok1 h = Inr ok" and "h_ok2 h = Inr True" and "reads_succeed categories h"
  shows "is_snapshot (snd (get_jetson_info ec nv (Inr h)))"
proof -
  from read_categories_succeed [OF assms(3)] obtain d where
    d: "read_categories categories h (actions_data ok ec nv h) = Inr d" by blast
  have "set (map fst categories) \<inter> set action_keys = {}"
    by (simp add: categories_def action_keys_def)
  with actions_data_keys [of ok ec nv h]
  have "set (map fst categories) \<inter> set (map fst (actions_data ok ec nv h)) = {}" by blast
  from read_categories_keys [OF d distinct_category_keys this]
  have "map fst d = map fst (actions_data ok ec nv h) @ category_keys"
    by (simp add: category_keys_def)
  from snapshot_shape [OF this actions_data_keys] d show ?thesis
    by (simp add: get_jetson_info_ready [OF assms(1,2)])
qed

lemma snapshot_reads_succeed:
  assumes "is_snapshot (snd (get_jetson_info ec nv (Inr h)))"
  shows "reads_succeed categories h"
  unfolding reads_succeed_def list_all_iff
proof
  fix c assume "c \<in> set categories"
  then have "(fst c, snd c) \<in> set categories" by simp
  from snapshot_category [OF assms this] show "succeeds (snd c h)" by auto
qed

lemma reads_succeed_empty_but:
  assumes "h_board h = Inr (PDict [])" "h_nvpmodel h = Inr None" "h_jetson_clocks h = Inr None"
    "h_cpu h = Inr (PDict [])" "h_gpu h = Inr (PDict [])" "h_engine h = Inr (PDict [])"
    "h_temperature h = Inr (PDict [])" "h_disk h = Inr (PDict [])"
    "succeeds (py_bind (h_memory h) ram_category)" "succeeds (py_bind (h_memory h) swap_category)"
    "succeeds (py_bind (h_fan h) fan_category)"
    "succeeds (py_bind (h_processes h) processes_category)"
  shows "reads_succeed categories h"
  using assms by (simp add: reads_succeed_def categories_def category_empty)

section \<open>Processes\<close>

lemma process_entry_list:
  "10 \<le> length xs \<Longrightarrow> process_entry (PList xs) = Inr (entry_at (PList xs))"
  by (auto simp: process_entry_def entry_at_def)

lemma process_entries_lists:
  "list_all is_list ps \<Longrightarrow>
   process_entries ps = Inr (map entry_at (filter (\<lambda>p. 10 \<le> length (fields p)) ps))"
proof (induction ps)
  case Nil
  then show ?case by simp
next
  case (Cons p ps)
  from Cons.prems obtain xs where p: "p = PList xs" by (cases p) simp_all
  from Cons show ?case by (simp add: p process_entry_list)
qed

lemma processes_category_lists:
  "list_all is_list ps \<Longrightarrow>
   processes_category (PList ps) =
     Inr (PList (map entry_at (filter (\<lambda>p. 10 \<le> length (fields p)) ps)))"
  by (simp add: processes_category_def process_entries_lists)

text \<open>
  C9.  When the backend reports a list of positional records (lists), the extraction of
  the \<open>processes\<close> category succeeds, and the category of the snapshot holds, in order,
  exactly one entry for each record of at least 10 fields, made of its fields at
  positions 0, 1, 8 and 9; shorter records leave no trace.
\<close>

theorem processes_entries:
  assumes "h_processes h = Inr (PList ps)" and "list_all is_list ps"
  shows "processes_category (PList ps) =
           Inr (PList (map entry_at (filter (\<lambda>p. 10 \<le> length (fields p)) ps)))
         \<and> (is_snapshot (snd (get_jetson_info ec nv (Inr h))) \<longrightarrow>
              lookup (snd (get_jetson_info ec nv (Inr h))) ''processes'' =
                Some (PList (map entry_at (filter (\<lambda>p. 10 \<le> length (fields p)) ps))))"
proof (intro conjI impI)
  show c: "processes_category (PList ps) =
           Inr (PList (map entry_at (filter (\<lambda>p. 10 \<le> length (fields p)) ps)))"
    by (rule processes_category_lists [OF assms(2)])
  assume s: "is_snapshot (snd (get_jetson_info ec nv (Inr h)))"
  have "(''processes'', \<lambda>h. py_bind (h_processes h) processes_category) \<in> set categories"
    by (simp add: categories_def)
  from snapshot_category [OF s this] assms(1) c
  show "lookup (snd (get_jetson_info ec nv (Inr h))) ''processes'' =
          Some (PList (map entry_at (filter (\<lambda>p. 10 \<le> length (fields p)) ps)))"
    by simp
qed


theorem processes_entries_witness:
  "processes_category
     (PList [PList [PInt 1],
             PList [PInt 77, PStr ''root'', PStr ''I'', PStr ''G'', PInt 20, PStr ''S'',
                    PInt 3, PInt 100, PInt 512, PStr ''python3'']]) =
   Inr (PList [PDict [(''pid'', PInt 77), (''user'', PStr ''root''), (''gpu_mem'', PInt 512),
                      (''name'', PStr ''python3'')]])
   \<and> lookup (snd (get_jetson_info False None (Inr (empty_handle\<lparr>h_processes := Inr
         (PList [PList [PInt 1],
             PList [PInt 77, PStr ''root'', PStr ''I'', PStr ''G'', PInt 20, PStr ''S'',
                    PInt 3, PInt 100, PInt 512, PStr ''python3'']])\<rparr>)))) ''processes'' =
   Some (PList [PDict [(''pid'', PInt 77), (''user'', PStr ''root''), (''gpu_mem'', PInt 512),
                      (''name'', PStr ''python3'')]])"
proof -
  let ?ps = "[PList [PInt 1],
              PList [PInt 77, PStr ''root'', PStr ''I'', PStr ''G'', PInt 20, PStr ''S'',
                     PInt 3, PInt 100, PInt 512, PStr ''python3'']]"
  let ?h = "empty_handle\<lparr>h_processes := Inr (PList ?ps)\<rparr>"
  have 1: "h_processes ?h = Inr (PList ?ps)" by simp
  have 2: "list_all is_list ?ps" by simp
  note t = processes_entries [OF 1 2, of False None]
  from t have c: "processes_category (PList ?ps) =
      Inr (PList (map entry_at (filter (\<lambda>p. 10 \<le> length (fields p)) ?ps)))"
    by (rule conjunct1)
  have "reads_succeed categories ?h"
    by (rule reads_succeed_empty_but) (simp_all add: empty_handle_def category_empty c)
  then have "is_snapshot (snd (get_jetson_info False None (Inr ?h)))"
    by (rule reads_succeed_snapshot [rotated 2]) (simp_all add: empty_handle_def)
  with t have "lookup (snd (get_jetson_info False None (Inr ?h))) ''processes'' =
      Some (PList (map entry_at (filter (\<lambda>p. 10 \<le> length (fields p)) ?ps)))"
    by blast
  with c show ?thesis by (simp add: entry_at_def)
qed

section \<open>Swap\<close>

lemma py_get_Inr:
  "py_get d k dflt = Inr v \<longleftrightarrow> (\<exists>kvs. d = PDict kvs \<and> v = field_or kvs k dflt)"
  by (cases d) (auto simp: field_or_def)

lemma get2_Inr:
  "get2 d k1 k2 dflt = Inr v \<longleftrightarrow>
   (\<exists>m sub. d = PDict m \<and> field_or m k1 (PDict []) = PDict sub \<and> v = field_or sub k2 dflt)"
  by (auto simp: get2_def py_bind_Inr py_get_Inr)

lemma swap_category_Inr:
  assumes "swap_category mem = Inr v"
  shows "\<exists>m sw. mem = PDict m \<and> field_or m ''SWAP'' (PDict []) = PDict sw
           \<and> v = PDict [(''total'', field_or sw ''tot'' (PInt 0)),
                        (''used'', field_or sw ''used'' (PInt 0))]"
  using assms by (auto simp: swap_category_def py_bind_Inr get2_Inr)

text \<open>
  C5 (as stated).  The backend reports a swap mapping with a \<open>free\<close> value; the
  \<open>swap\<close> category of the snapshot has the keys \<open>total\<close> and \<open>used\<close> and no \<open>free\<close>.
\<close>

theorem swap_free_counterexample:
  "lookup (snd (get_jetson_info False None
       (Inr (empty_handle\<lparr>h_memory := Inr (PDict [(''SWAP'',
          PDict [(''tot'', PInt 8), (''used'', PInt 2), (''free'', PInt 6)])])\<rparr>)))) ''swap''
   = Some (PDict [(''total'', PInt 8), (''used'', PInt 2)])
   \<and> lookup (PDict [(''total'', PInt 8), (''used'', PInt 2)]) ''free'' = None"
proof -
  let ?mem = "PDict [(''SWAP'', PDict [(''tot'', PInt 8), (''used'', PInt 2), (''free'', PInt 6)])]"
  let ?h = "empty_handle\<lparr>h_memory := Inr ?mem\<rparr>"
  have r: "ram_category ?mem = Inr (PDict [(''total'', PInt 0), (''used'', PInt 0), (''free'', PInt 0)])"
    by (simp add: ram_category_def get2_def)
  have s: "swap_category ?mem = Inr (PDict [(''total'', PInt 8), (''used'', PInt 2)])"
    by (simp add: swap_category_def get2_def)
  have "snd (get_jetson_info False None (Inr ?h)) =
        PDict (actions_data True False None ?h @
          [(''board'', PDict [(''model'', PStr ''Unknown''), (''serial'', PStr ''Unknown''),
                 (''l4t'', PStr ''Unknown''), (''jetpack'', PStr ''Unknown''),
                 (''module'', PStr ''Unknown'')]),
           (''libraries'', PDict []), (''nvpmodel'', nvpmodel_default),
           (''jetson_clocks'', clocks_default),
           (''cpu'', PDict [(''total_user'', PInt 0), (''total_system'', PInt 0),
                 (''total_idle'', PInt 0), (''online_cores'', PInt 0)]),
           (''gpu'', PDict [(''load'', PInt 0), (''curr_freq'', PInt 0), (''max_freq'', PInt 0)]),
           (''engines'', PDict []),
           (''ram'', PDict [(''total'', PInt 0), (''used'', PInt 0), (''free'', PInt 0)]),
           (''swap'', PDict [(''total'', PInt 8), (''used'', PInt 2)]),
           (''temperature'', PDict []),
           (''fan'', PDict [(''speed'', PInt 0), (''profile'', PStr ''Unknown'')]),
           (''processes'', PList []),
           (''disk'', PDict [(''total'', PInt 0), (''used'', PInt 0), (''available'', PInt 0)])])"
    by (rule get_jetson_info_snapshot) (simp_all add: empty_handle_def category_empty r s)
  then show ?thesis
    by (simp add: actions_data_def management_actions_def)
qed

text \<open>
  C5 (amended).  In every snapshot the \<open>swap\<close> category reports \<open>total\<close> and \<open>used\<close>
  (and nothing else): the values under \<open>tot\<close> and \<open>used\<close> of the backend's
  \<open>SWAP\<close> mapping, unchanged, each 0 when the backend does not report it.
\<close>

theorem swap_total_used:
  assumes "is_snapshot (snd (get_jetson_info ec nv (Inr h)))"
  shows "\<exists>m sw. h_memory h = Inr (PDict m) \<and> field_or m ''SWAP'' (PDict []) = PDict sw
           \<and> lookup (snd (get_jetson_info ec nv (Inr h))) ''swap'' =
               Some (PDict [(''total'', field_or sw ''tot'' (PInt 0)),
                            (''used'', field_or sw ''used'' (PInt 0))])"
proof -
  have "(''swap'', \<lambda>h. py_bind (h_memory h) swap_category) \<in> set categories"
    by (simp add: categories_def)
  from snapshot_category [OF assms this] obtain v mem where
    "h_memory h = Inr mem" "swap_category mem = Inr v"
    "lookup (snd (get_jetson_info ec nv (Inr h))) ''swap'' = Some v"
    by (auto simp: py_bind_Inr)
  with swap_category_Inr [of mem v] show ?thesis by auto
qed

theorem swap_total_used_witness:
  "is_snapshot (snd (get_jetson_info False None (Inr empty_handle)))
   \<and> lookup (snd (get_jetson_info False None (Inr empty_handle))) ''swap'' =
       Some (PDict [(''total'', PInt 0), (''used'', PInt 0)])"
proof -
  have "reads_succeed categories empty_handle"
    by (rule reads_succeed_empty_but) (simp_all add: empty_handle_def category_empty)
  then have s: "is_snapshot (snd (get_jetson_info False None (Inr empty_handle)))"
    by (rule reads_succeed_snapshot [rotated 2]) (simp_all add: empty_handle_def)
  from swap_total_used [OF s] obtain m sw where
    "h_memory empty_handle = Inr (PDict m)" "field_or m ''SWAP'' (PDict []) = PDict sw"
    "lookup (snd (get_jetson_info False None (Inr empty_handle))) ''swap'' =
       Some (PDict [(''total'', field_or sw ''tot'' (PInt 0)),
                    (''used'', field_or sw ''used'' (PInt 0))])"
    by blast
  then show ?thesis using s by (auto simp: empty_handle_def field_or_def)
qed


section \<open>Clocks control\<close>

text \<open>
  C6 (as stated).  A clocks-control object exists, is inactive (its truth value is
  false), has the status \<open>stopped\<close> and is set to persist at boot: the category reports
  the fixed values of line 65, not the object's status and boot flag.
\<close>

theorem inactive_clocks_counterexample:
  "lookup (snd (get_jetson_info False None
       (Inr (empty_handle\<lparr>h_jetson_clocks := Inr (Some
          \<lparr>clk_truth = False, clk_status = Inr (PStr ''stopped''),
           clk_boot = Inr (PBool True)\<rparr>)\<rparr>)))) ''jetson_clocks''
   = Some (PDict [(''active'', PBool False), (''status'', PStr ''inactive''),
                  (''boot'', PBool False)])
   \<and> PDict [(''active'', PBool False), (''status'', PStr ''inactive''), (''boot'', PBool False)]
       \<noteq> PDict [(''active'', PBool False), (''status'', PStr ''stopped''),
                 (''boot'', PBool True)]"
proof -
  let ?ob = "\<lparr>clk_truth = False, clk_status = Inr (PStr ''stopped''),
             clk_boot = Inr (PBool True)\<rparr>"
  let ?h = "empty_handle\<lparr>h_jetson_clocks := Inr (Some ?ob)\<rparr>"
  have c: "jetson_clocks_category (Some ?ob) = Inr clocks_default"
    by (simp add: jetson_clocks_category_def)
  have "snd (get_jetson_info False None (Inr ?h)) =
        PDict (actions_data True False None ?h @
          [(''board'', PDict [(''model'', PStr ''Unknown''), (''serial'', PStr ''Unknown''),
                 (''l4t'', PStr ''Unknown''), (''jetpack'', PStr ''Unknown''),
                 (''module'', PStr ''Unknown'')]),
           (''libraries'', PDict []), (''nvpmodel'', nvpmodel_default),
           (''jetson_clocks'', clocks_default),
           (''cpu'', PDict [(''total_user'', PInt 0), (''total_system'', PInt 0),
                 (''total_idle'', PInt 0), (''online_cores'', PInt 0)]),
           (''gpu'', PDict [(''load'', PInt 0), (''curr_freq'', PInt 0), (''max_freq'', PInt 0)]),
           (''engines'', PDict []),
           (''ram'', PDict [(''total'', PInt 0), (''used'', PInt 0), (''free'', PInt 0)]),
           (''swap'', PDict [(''total'', PInt 0), (''used'', PInt 0)]),
           (''temperature'', PDict []),
           (''fan'', PDict [(''speed'', PInt 0), (''profile'', PStr ''Unknown'')]),
           (''processes'', PList []),
           (''disk'', PDict [(''total'', PInt 0), (''used'', PInt 0), (''available'', PInt 0)])])"
    by (rule get_jetson_info_snapshot) (simp_all add: empty_handle_def category_empty c)
  then show ?thesis
    by (simp add: actions_data_def management_actions_def clocks_default_def)
qed

lemma jetson_clocks_category_Inr:
  assumes "jetson_clocks_category jc = Inr v"
  shows "case jc of
           None \<Rightarrow> v = clocks_default
         | Some ob \<Rightarrow>
             if clk_truth ob
             then \<exists>st bt. clk_status ob = Inr st \<and> clk_boot ob = Inr bt
                    \<and> v = PDict [(''active'', PBool True), (''status'', st), (''boot'', bt)]
             else v = clocks_default"
  using assms
  by (auto simp: jetson_clocks_category_def py_bind_Inr split: option.splits if_splits)

text \<open>
  C6 (amended).  In every snapshot: if a clocks-control object exists and is truthy
  (active), the \<open>jetson_clocks\<close> category reports active=true, the object's status and
  its boot-persistence flag; if no object exists, or the object is falsy (inactive), it
  reports active=false, status="inactive", boot=false.
\<close>

theorem jetson_clocks_report:
  assumes "is_snapshot (snd (get_jetson_info ec nv (Inr h)))"
  shows "\<exists>jc. h_jetson_clocks h = Inr jc \<and>
           (case jc of
              None \<Rightarrow>
                lookup (snd (get_jetson_info ec nv (Inr h))) ''jetson_clocks'' = Some clocks_default
            | Some ob \<Rightarrow>
                if clk_truth ob
                then \<exists>st bt. clk_status ob = Inr st \<and> clk_boot ob = Inr bt
                       \<and> lookup (snd (get_jetson_info ec nv (Inr h))) ''jetson_clocks'' =
                           Some (PDict [(''active'', PBool True), (''status'', st),
                                        (''boot'', bt)])
                else lookup (snd (get_jetson_info ec nv (Inr h))) ''jetson_clocks'' =
                       Some clocks_default)"
proof -
  have "(''jetson_clocks'', \<lambda>h. py_bind (h_jetson_clocks h) jetson_clocks_category)
          \<in> set categories"
    by (simp add: categories_def)
  from snapshot_category [OF assms this] obtain v jc where
    jc: "h_jetson_clocks h = Inr jc" and c: "jetson_clocks_category jc = Inr v"
    and l: "lookup (snd (get_jetson_info ec nv (Inr h))) ''jetson_clocks'' = Some v"
    by (auto simp: py_bind_Inr)
  from jetson_clocks_category_Inr [OF c] l jc show ?thesis
    by (auto split: option.splits if_splits)
qed

theorem jetson_clocks_report_witness:
  "is_snapshot (snd (get_jetson_info False None
       (Inr (empty_handle\<lparr>h_jetson_clocks := Inr (Some
          \<lparr>clk_truth = True, clk_status = Inr (PStr ''running''),
           clk_boot = Inr (PBool True)\<rparr>)\<rparr>))))
   \<and> lookup (snd (get_jetson_info False None
       (Inr (empty_handle\<lparr>h_jetson_clocks := Inr (Some
          \<lparr>clk_truth = True, clk_status = Inr (PStr ''running''),
           clk_boot = Inr (PBool True)\<rparr>)\<rparr>)))) ''jetson_clocks''
     = Some (PDict [(''active'', PBool True), (''status'', PStr ''running''),
                    (''boot'', PBool True)])"
proof -
  let ?ob = "\<lparr>clk_truth = True, clk_status = Inr (PStr ''running''),
             clk_boot = Inr (PBool True)\<rparr>"
  let ?h = "empty_handle\<lparr>h_jetson_clocks := Inr (Some ?ob)\<rparr>"
  have "reads_succeed categories ?h"
    by (simp add: reads_succeed_def categories_def category_empty empty_handle_def
          jetson_clocks_category_def)
  then have s: "is_snapshot (snd (get_jetson_info False None (Inr ?h)))"
    by (rule reads_succeed_snapshot [rotated 2]) (simp_all add: empty_handle_def)
  from jetson_clocks_report [OF s] have
    "lookup (snd (get_jetson_info False None (Inr ?h))) ''jetson_clocks''
     = Some (PDict [(''active'', PBool True), (''status'', PStr ''running''),
                    (''boot'', PBool True)])"
    by auto
  with s show ?thesis by (rule conjI)
qed

section \<open>The clocks action\<close>

lemma lookup_action_key:
  assumes "is_snapshot (snd (get_jetson_info ec nv (Inr h)))" and "h_ok1 h = Inr ok"
    and "k \<notin> set category_keys"
  shows "lookup (snd (get_jetson_info ec nv (Inr h))) k = map_of (actions_data ok ec nv h) k"
proof -
  from snapshot_origin [OF assms(1)] assms(2) obtain d where
    r: "read_categories categories h (actions_data ok ec nv h) = Inr d"
    and s: "snd (get_jetson_info ec nv (Inr h)) = PDict d" by auto
  from read_categories_other [OF r, of k] assms(3) s show ?thesis
    by (simp add: category_keys_def)
qed

lemma map_of_nvpmodel_action:
  "k \<noteq> ''nvpmodel_action'' \<Longrightarrow> k \<noteq> ''nvpmodel_action_error'' \<Longrightarrow>
   map_of (snd (nvpmodel_action h s d)) k = map_of d k"
  by (simp add: nvpmodel_action_def Let_def map_of_dict_set split: option.splits)

lemma snd_management_actions:
  "snd (management_actions ec nv h d) =
     (case nv of
        None \<Rightarrow> (if ec then snd (clocks_action h d) else d)
      | Some s \<Rightarrow> snd (nvpmodel_action h s (if ec then snd (clocks_action h d) else d)))"
  by (auto simp: management_actions_def split: prod.splits option.splits)

lemma map_of_actions_clocks:
  assumes "k = ''clocks_action'' \<or> k = ''clocks_action_error''"
  shows "map_of (actions_data True True nv h) k = map_of (snd (clocks_action h [])) k"
proof (cases nv)
  case None
  then show ?thesis by (simp add: actions_data_def snd_management_actions)
next
  case (Some s)
  have "map_of (snd (nvpmodel_action h s (snd (clocks_action h [])))) k
        = map_of (snd (clocks_action h [])) k"
    using assms by (intro map_of_nvpmodel_action) auto
  then show ?thesis using Some
    by (simp add: actions_data_def snd_management_actions)
qed






section \<open>A fan speed reported as an empty list\<close>

lemma fan_category_empty_list:
  "map_of f ''speed'' = Some (PList []) \<Longrightarrow>
   fan_category (PDict f) = Inl (PyException ''list index out of range'')"
  by (simp add: fan_category_def fan_speed_def)

lemma categories_around_fan:
  "categories = takeWhile (\<lambda>c. fst c \<noteq> ''fan'') categories
     @ (''fan'', \<lambda>h. py_bind (h_fan h) fan_category)
     # [(''processes'', \<lambda>h. py_bind (h_processes h) processes_category),
        (''disk'', \<lambda>h. py_bind (h_disk h) disk_category)]"
  by (simp add: categories_def)

text \<open>
  C10.  On a handle that is ready and whose categories before \<open>fan\<close> are read
  successfully, a fan speed reported as an empty list makes line 115 index element 0 of
  the empty list; the exception abandons the snapshot and the output is the single-key
  record with the message \<open>Unexpected error: list index out of range\<close>.
\<close>

theorem fan_speed_empty_list:
  assumes "h_ok1 h = Inr ok" and "h_ok2 h = Inr True"
    and "reads_succeed (takeWhile (\<lambda>c. fst c \<noteq> ''fan'') categories) h"
    and "h_fan h = Inr (PDict f)" and "map_of f ''speed'' = Some (PList [])"
  shows "snd (get_jetson_info ec nv (Inr h)) =
         PDict [(''error'', PStr ''Unexpected error: list index out of range'')]"
proof -
  have "py_bind (h_fan h) fan_category = Inl (PyException ''list index out of range'')"
    using assms(4,5) by (simp add: fan_category_empty_list)
  then have "snd (''fan'', \<lambda>h. py_bind (h_fan h) fan_category) h
             = Inl (PyException ''list index out of range'')" by simp
  from read_categories_first_failure [OF assms(3) this]
  have "read_categories categories h (actions_data ok ec nv h)
        = Inl (PyException ''list index out of range'')"
    by (subst categories_around_fan)
  then show ?thesis by (simp add: get_jetson_info_ready [OF assms(1,2)])
qed

theorem fan_speed_empty_list_witness:
  "snd (get_jetson_info True (Some ''2'')
      (Inr (empty_handle\<lparr>h_fan := Inr (PDict [(''speed'', PList [])])\<rparr>))) =
   PDict [(''error'', PStr ''Unexpected error: list index out of range'')]"
proof -
  let ?h = "empty_handle\<lparr>h_fan := Inr (PDict [(''speed'', PList [])])\<rparr>"
  have 1: "h_ok1 ?h = Inr True" and 2: "h_ok2 ?h = Inr True"
    by (simp_all add: empty_handle_def)
  have 3: "reads_succeed (takeWhile (\<lambda>c. fst c \<noteq> ''fan'') categories) ?h"
    by (simp add: reads_succeed_def categories_def category_empty empty_handle_def)
  have 4: "h_fan ?h = Inr (PDict [(''speed'', PList [])])" by simp
  have 5: "map_of [(''speed'', PList [])] ''speed'' = Some (PList [])" by simp
  show ?thesis by (rule fan_speed_empty_list [OF 1 2 3 4 5])
qed


section \<open>The two kinds of exception\<close>

lemma first_failure_Some:
  "first_failure cs h = Some e \<Longrightarrow> read_categories cs h data = Inl e"
  by (induction cs arbitrary: data) (auto split: sum.splits)

lemma first_failure_None: "first_failure cs h = None \<Longrightarrow> reads_succeed cs h"
  by (induction cs) (auto simp: reads_succeed_def split: sum.splits)

lemma outer_exception_handled:
  assumes "outer_exception acq = Some e"
  shows "snd (get_jetson_info ec nv acq) = handler e"
proof (cases acq)
  case (Inl e')
  with assms show ?thesis by (simp add: outer_exception_def get_jetson_info_def)
next
  case (Inr h)
  show ?thesis
  proof (cases "h_ok1 h")
    case (Inl e')
    with assms Inr show ?thesis
      by (simp add: outer_exception_def get_jetson_info_ok1_raises)
  next
    case ok1: (Inr ok)
    show ?thesis
    proof (cases "h_ok2 h")
      case (Inl e')
      with assms Inr ok1 show ?thesis
        by (simp add: outer_exception_def get_jetson_info_ok2_raises [OF ok1])
    next
      case ok2: (Inr ok')
      with assms Inr ok1 have t: "ok'" and f: "first_failure categories h = Some e"
        by (auto simp: outer_exception_def split: if_splits)
      from ok2 t have ok2': "h_ok2 h = Inr True" by simp
      show ?thesis
        by (simp add: Inr get_jetson_info_ready [OF ok1 ok2'] first_failure_Some [OF f])
    qed
  qed
qed

lemma no_outer_exception:
  assumes "outer_exception acq = None"
  shows "snd (get_jetson_info ec nv acq) = not_ok \<or> is_snapshot (snd (get_jetson_info ec nv acq))"
proof -
  from assms obtain h ok ok' where h: "acq = Inr h" and ok1: "h_ok1 h = Inr ok"
    and ok2: "h_ok2 h = Inr ok'" and f: "ok' \<longrightarrow> first_failure categories h = None"
    by (auto simp: outer_exception_def split: sum.splits if_splits)
  show ?thesis
  proof (cases ok')
    case False
    with ok2 show ?thesis by (simp add: h get_jetson_info_not_ready [OF ok1])
  next
    case True
    with ok2 f have "h_ok2 h = Inr True" and "reads_succeed categories h"
      by (simp_all add: first_failure_None)
    from reads_succeed_snapshot [OF ok1 this] show ?thesis by (simp add: h)
  qed
qed

text \<open>
  C4 (as stated).  Setting \<open>jetson.jetson_clocks\<close> raises \<open>JtopException\<close>: the
  handler of line 19 catches it, the message is stored under \<open>clocks_action_error\<close> and
  the output is a snapshot, not the record \<open>JtopException: denied\<close>.
\<close>

theorem jtop_exception_in_action_counterexample:
  "snd (get_jetson_info True None
      (Inr (empty_handle\<lparr>h_set_clocks := Some (JtopException ''denied'')\<rparr>)))
     \<noteq> PDict [(''error'', PStr ''JtopException: denied'')]
   \<and> lookup (snd (get_jetson_info True None
      (Inr (empty_handle\<lparr>h_set_clocks := Some (JtopException ''denied'')\<rparr>))))
        ''clocks_action_error'' = Some (PStr ''denied'')"
proof -
  let ?h = "empty_handle\<lparr>h_set_clocks := Some (JtopException ''denied'')\<rparr>"
  have 1: "h_ok1 ?h = Inr True" and 2: "h_ok2 ?h = Inr True"
    by (simp_all add: empty_handle_def)
  have 3: "reads_succeed categories ?h"
    by (rule reads_succeed_empty_but) (simp_all add: empty_handle_def category_empty)
  have s: "is_snapshot (snd (get_jetson_info True None (Inr ?h)))"
    by (rule reads_succeed_snapshot [OF 1 2 3])
  have "\<not> is_snapshot (PDict [(''error'', PStr ''JtopException: denied'')])" by simp
  with s have a: "snd (get_jetson_info True None (Inr ?h))
                  \<noteq> PDict [(''error'', PStr ''JtopException: denied'')]" by metis
  have "lookup (snd (get_jetson_info True None (Inr ?h))) ''clocks_action_error''
        = map_of (snd (clocks_action ?h [])) ''clocks_action_error''"
    by (simp add: lookup_action_key [OF s 1] category_keys_eq map_of_actions_clocks)
  also have "\<dots> = Some (PStr ''denied'')" by (simp add: clocks_action_def)
  finally show ?thesis using a by simp
qed

text \<open>
  C4 (amended).  If the first exception raised by the acquisition of the handle, by a
  readiness check or by a category read is a \<open>JtopException\<close> with message \<open>m\<close>, the
  result is the record \<open>JtopException: m\<close>; if it is any other exception, the result is
  the record \<open>Unexpected error: m\<close>; the two records differ.  An exception raised by a
  management action reaches neither handler: when none of those phases raises, the
  result is the not-ready record or a snapshot.
\<close>

theorem exception_kinds:
  "(outer_exception acq = Some (JtopException m) \<longrightarrow>
      snd (get_jetson_info ec nv acq) = PDict [(''error'', PStr (''JtopException: '' @ m))])
   \<and> (outer_exception acq = Some (PyException m) \<longrightarrow>
      snd (get_jetson_info ec nv acq) = PDict [(''error'', PStr (''Unexpected error: '' @ m))])
   \<and> PDict [(''error'', PStr (''JtopException: '' @ m))]
       \<noteq> PDict [(''error'', PStr (''Unexpected error: '' @ m'))]
   \<and> (outer_exception acq = None \<longrightarrow>
      snd (get_jetson_info ec nv acq) = not_ok \<or> is_snapshot (snd (get_jetson_info ec nv acq)))"
  using outer_exception_handled [of acq "JtopException m" ec nv]
    outer_exception_handled [of acq "PyException m" ec nv]
    no_outer_exception [of acq ec nv]
  by simp

theorem exception_kinds_witness:
  "outer_exception (Inr (empty_handle\<lparr>h_gpu := Inl (JtopException ''lost'')\<rparr>))
     = Some (JtopException ''lost'')
   \<and> snd (get_jetson_info True None (Inr (empty_handle\<lparr>h_gpu := Inl (JtopException ''lost'')\<rparr>)))
     = PDict [(''error'', PStr ''JtopException: lost'')]
   \<and> outer_exception (Inl (PyException ''refused'')) = Some (PyException ''refused'')
   \<and> snd (get_jetson_info True None (Inl (PyException ''refused'')))
     = PDict [(''error'', PStr ''Unexpected error: refused'')]"
proof -
  let ?a = "Inr (empty_handle\<lparr>h_gpu := Inl (JtopException ''lost'')\<rparr>)"
  have 1: "outer_exception ?a = Some (JtopException ''lost'')"
    by (simp add: outer_exception_def empty_handle_def categories_def category_empty)
  have 2: "outer_exception (Inl (PyException ''refused'')) = Some (PyException ''refused'')"
    by (simp add: outer_exception_def)
  from exception_kinds [of ?a "''lost''" True None] 1
  have 3: "snd (get_jetson_info True None ?a) = PDict [(''error'', PStr ''JtopException: lost'')]"
    by simp
  from exception_kinds [of "Inl (PyException ''refused'')" "''refused''" True None] 2
  have 4: "snd (get_jetson_info True None (Inl (PyException ''refused'')))
           = PDict [(''error'', PStr ''Unexpected error: refused'')]"
    by simp
  from 1 2 3 4 show ?thesis by simp
qed

section \<open>Reports of the expected shape are read without an exception\<close>



































end
